theory Spec2Isabelle
  imports Main "HOL-Library.Word"
begin

section \<open>The Socket.IO synchronisation server\<close>

text \<open>
  A shallow embedding of the collaboration server (\<^verbatim>\<open>initSocketServer\<close> and
  \<^verbatim>\<open>setupRedisPubSub\<close>): the two module-level registries \<^verbatim>\<open>yjsDocs\<close> and
  \<^verbatim>\<open>sessionParticipants\<close>, the Socket.IO rooms, the two Prisma tables the handlers touch
  and the Redis channel are a record of state; every handler is a function from the state to
  the new state and the list of events it emits. What raises in the source is a value here.
\<close>

subsection \<open>Data\<close>

type_synonym bytes = "8 word list"

text \<open>
  The Yjs library is not part of the server: it is a parameter, a record of the operations the
  handlers call on a \<^verbatim>\<open>Y.Doc\<close>. \<^verbatim>\<open>Y.applyUpdate\<close> works in place on the document object and
  may raise; both outcomes carry the document as the call leaves it.
\<close>

datatype 'doc apply_result = Applied 'doc | Raised 'doc

record 'doc yjs =
  newDoc :: "'doc"
  applyUpdate :: "'doc \<Rightarrow> bytes \<Rightarrow> 'doc apply_result"
  encodeStateAsUpdate :: "'doc \<Rightarrow> bytes option"
  getTextString :: "'doc \<Rightarrow> string"
  textLength :: "'doc \<Rightarrow> nat"
  insertText :: "'doc \<Rightarrow> nat \<Rightarrow> string \<Rightarrow> 'doc"
  clientsSize :: "'doc \<Rightarrow> nat"

text \<open>
  \<^verbatim>\<open>encodeStateAsUpdate\<close> is \<open>None\<close> when the call raises; \<^verbatim>\<open>getTextString\<close> is
  \<^verbatim>\<open>ydoc.getText('monaco').toString()\<close>, \<^verbatim>\<open>textLength\<close> is \<^verbatim>\<open>yText.length\<close>,
  \<^verbatim>\<open>insertText d i s\<close> is \<^verbatim>\<open>yText.insert(i, s)\<close> and \<^verbatim>\<open>clientsSize\<close> is
  \<^verbatim>\<open>ydoc.store.clients.size\<close>.
\<close>

record code_session =
  yjsState :: "bytes option"
  lastSnapshot :: "string option"
  updatedAt :: nat

record participant =
  role :: string
  joinedAt :: nat
  leftAt :: "nat option"

record user_info =
  user_id :: string
  user_name :: string
  user_color :: string

datatype server_event =
    Yjs_update bytes
  | Yjs_awareness bytes
  | User_joined user_info
  | Session_not_found
  | Unauthorized

text \<open>
  An emission is the event and the sockets that get it. The three ways the server addresses
  sockets are resolved against the rooms at the moment of the call: \<^verbatim>\<open>socket.emit\<close> reaches
  the socket, \<^verbatim>\<open>io.to(room)\<close> the members of the room, and \<^verbatim>\<open>socket.to(room)\<close> the members
  of the room that are not in the room named by the socket's own id (Socket.IO's
  \<^verbatim>\<open>except\<close>; a socket is in that room from its connection until it leaves it).
\<close>

record emission =
  recipients :: "string set"
  event :: server_event

text \<open>
  A message on a Redis channel is JSON text: \<open>None\<close> is text that \<^verbatim>\<open>JSON.parse\<close> rejects,
  otherwise the object's \<^verbatim>\<open>type\<close> and its \<^verbatim>\<open>data\<close>, an array of integer literals
  (\<open>None\<close> when the field is missing). The server's own handlers publish nothing else; a
  \<^verbatim>\<open>data\<close> that is no array, or an array of other things than integers, has no value here.
\<close>

datatype json = Json (jtype: string) (jdata: "int list option")

datatype db_op =
    CodeSession_update string bytes string nat
  | Participant_upsert string string

datatype error = DbError | RecordNotFound | RedisError | MergeError | EncodeError

record 'doc state =
  yjsDocs :: "string \<rightharpoonup> 'doc"
  sessionParticipants :: "string \<rightharpoonup> string set"
  rooms :: "string \<Rightarrow> string set"
  codeSessions :: "string \<rightharpoonup> code_session"
  participants :: "string \<times> string \<rightharpoonup> participant"
  dbLog :: "db_op list"
  channel :: "(string \<times> json option) list"

text \<open>
  \<^verbatim>\<open>rooms st r\<close> is the set of sockets in room \<open>r\<close>; \<^verbatim>\<open>dbLog\<close> lists the write
  operations issued to Prisma, oldest first; \<^verbatim>\<open>channel\<close> holds the messages Redis has
  still to hand to this process's subscriber (\<^verbatim>\<open>redisSubscriber\<close> is subscribed to
  \<^verbatim>\<open>yjs:*\<close>, and Redis delivers a published message to every matching subscriber,
  whichever connection published it).

  What the handlers cannot decide themselves comes from the environment: whether a call to
  the database or to Redis raises, the clock and the colour drawn by \<^verbatim>\<open>Math.random\<close>.
\<close>

record env =
  find_raises :: bool
  upsert_raises :: bool
  publish_raises :: bool
  update_raises :: bool
  now :: nat
  random_color :: string

subsection \<open>Addressing sockets\<close>

definition socket_emit :: "string \<Rightarrow> server_event \<Rightarrow> emission" where
  "socket_emit sock ev = \<lparr>recipients = {sock}, event = ev\<rparr>"

definition socket_to :: "'doc state \<Rightarrow> string \<Rightarrow> string \<Rightarrow> server_event \<Rightarrow> emission" where
  "socket_to st sock room ev = \<lparr>recipients = rooms st room - rooms st sock, event = ev\<rparr>"

definition io_to :: "'doc state \<Rightarrow> string \<Rightarrow> server_event \<Rightarrow> emission" where
  "io_to st room ev = \<lparr>recipients = rooms st room, event = ev\<rparr>"

definition socket_join :: "string \<Rightarrow> string \<Rightarrow> 'doc state \<Rightarrow> 'doc state" where
  "socket_join sock room st = st\<lparr>rooms := (rooms st)(room := insert sock (rooms st room))\<rparr>"

definition socket_leave :: "string \<Rightarrow> string \<Rightarrow> 'doc state \<Rightarrow> 'doc state" where
  "socket_leave sock room st = st\<lparr>rooms := (rooms st)(room := rooms st room - {sock})\<rparr>"

subsection \<open>join-session\<close>

text \<open>The document of a session seen for the first time, from its persisted row.\<close>

definition text_fallback :: "'doc yjs \<Rightarrow> code_session \<Rightarrow> 'doc \<Rightarrow> 'doc" where
  "text_fallback Y session ydoc =
     (case lastSnapshot session of
        None \<Rightarrow> ydoc
      | Some s \<Rightarrow> if s \<noteq> [] then insertText Y ydoc 0 s else ydoc)"

definition load_document :: "'doc yjs \<Rightarrow> code_session \<Rightarrow> 'doc" where
  "load_document Y session =
     (let ydoc = newDoc Y in
      case yjsState session of
        None \<Rightarrow> text_fallback Y session ydoc
      | Some stateArray \<Rightarrow>
          if length stateArray > 0 then
            (case applyUpdate Y ydoc stateArray of
               Applied d \<Rightarrow> d
             | Raised d \<Rightarrow> text_fallback Y session d)
          else text_fallback Y session ydoc)"

definition track_participant :: "string \<Rightarrow> string \<Rightarrow> 'doc state \<Rightarrow> 'doc state" where
  "track_participant sessionId userId st =
     (let known = (case sessionParticipants st sessionId of None \<Rightarrow> {} | Some s \<Rightarrow> s)
      in st\<lparr>sessionParticipants := (sessionParticipants st)(sessionId \<mapsto> insert userId known)\<rparr>)"

definition full_state :: "'doc yjs \<Rightarrow> string \<Rightarrow> 'doc \<Rightarrow> emission list" where
  "full_state Y sock ydoc =
     (if textLength Y ydoc > 0 \<or> clientsSize Y ydoc > 0 then
        (case encodeStateAsUpdate Y ydoc of
           None \<Rightarrow> []
         | Some stateVector \<Rightarrow>
             if length stateVector > 0 then [socket_emit sock (Yjs_update stateVector)] else [])
      else [])"

definition participant_upsert :: "env \<Rightarrow> string \<Rightarrow> string \<Rightarrow> 'doc state \<Rightarrow> 'doc state" where
  "participant_upsert e sessionId userId st =
     st\<lparr>participants := (participants st)((sessionId, userId) \<mapsto>
          (case participants st (sessionId, userId) of
             None \<Rightarrow> \<lparr>role = ''editor'', joinedAt = now e, leftAt = None\<rparr>
           | Some p \<Rightarrow> p\<lparr>leftAt := None\<rparr>))\<rparr>"

definition obtain_doc :: "'doc yjs \<Rightarrow> code_session \<Rightarrow> string \<Rightarrow> 'doc state \<Rightarrow> 'doc \<times> 'doc state" where
  "obtain_doc Y session sessionId st =
     (case yjsDocs st sessionId of
        Some ydoc \<Rightarrow> (ydoc, st)
      | None \<Rightarrow>
          (let ydoc = load_document Y session
           in (ydoc, st\<lparr>yjsDocs := (yjsDocs st)(sessionId \<mapsto> ydoc)\<rparr>)))"

text \<open>
  The body of the handler's \<^verbatim>\<open>try\<close>: the state and the emissions reached, and the exception
  that ended it, if one did.
\<close>

definition join_session_try ::
  "'doc yjs \<Rightarrow> env \<Rightarrow> 'doc state \<Rightarrow> string \<Rightarrow> string \<Rightarrow> string \<Rightarrow> string
     \<Rightarrow> 'doc state \<times> emission list \<times> error option" where
  "join_session_try Y e st sock sessionId userId userName =
     (if find_raises e then (st, [], Some DbError)
      else case codeSessions st sessionId of
        None \<Rightarrow> (st, [socket_emit sock Session_not_found], None)
      | Some session \<Rightarrow>
          (let st1 = track_participant sessionId userId (socket_join sock sessionId st);
               (ydoc, st2) = obtain_doc Y session sessionId st1;
               out = full_state Y sock ydoc @
                     [socket_to st2 sock sessionId
                        (User_joined \<lparr>user_id = userId, user_name = userName,
                                      user_color = random_color e\<rparr>)];
               st3 = st2\<lparr>dbLog := dbLog st2 @ [Participant_upsert sessionId userId]\<rparr>
           in if upsert_raises e then (st3, out, Some DbError)
              else (participant_upsert e sessionId userId st3, out, None)))"

definition join_session ::
  "'doc yjs \<Rightarrow> env \<Rightarrow> 'doc state \<Rightarrow> string \<Rightarrow> string \<Rightarrow> string \<Rightarrow> string
     \<Rightarrow> 'doc state \<times> emission list" where
  "join_session Y e st sock sessionId userId userName =
     (case join_session_try Y e st sock sessionId userId userName of
        (st', out, None) \<Rightarrow> (st', out)
      | (st', out, Some err) \<Rightarrow> (st', out @ [socket_emit sock Unauthorized]))"

subsection \<open>yjs-update\<close>

text \<open>
  \<^verbatim>\<open>prisma.codeSession.update\<close> raises when no row has the id, or when the database does.
\<close>

definition codeSession_update ::
  "env \<Rightarrow> string \<Rightarrow> bytes \<Rightarrow> string \<Rightarrow> 'doc state \<Rightarrow> 'doc state \<times> error option" where
  "codeSession_update e sessionId state txt st =
     (let st1 = st\<lparr>dbLog := dbLog st @ [CodeSession_update sessionId state txt (now e)]\<rparr>
      in if update_raises e then (st1, Some DbError)
         else case codeSessions st1 sessionId of
           None \<Rightarrow> (st1, Some RecordNotFound)
         | Some row \<Rightarrow>
             (st1\<lparr>codeSessions := (codeSessions st1)(sessionId \<mapsto>
                     row\<lparr>yjsState := Some state, lastSnapshot := Some txt, updatedAt := now e\<rparr>)\<rparr>,
              None))"

definition stringify :: "string \<Rightarrow> bytes \<Rightarrow> json option" where
  "stringify ty update = Some (Json ty (Some (map uint update)))"

definition redis_publish :: "string \<Rightarrow> json option \<Rightarrow> 'doc state \<Rightarrow> 'doc state" where
  "redis_publish chan msg st = st\<lparr>channel := channel st @ [(chan, msg)]\<rparr>"

definition save_document ::
  "'doc yjs \<Rightarrow> env \<Rightarrow> string \<Rightarrow> 'doc state \<Rightarrow> 'doc state \<times> error option" where
  "save_document Y e sessionId st =
     (case yjsDocs st sessionId of
        None \<Rightarrow> (st, None)
      | Some ydoc \<Rightarrow>
          (case encodeStateAsUpdate Y ydoc of
             None \<Rightarrow> (st, Some EncodeError)
           | Some state \<Rightarrow> codeSession_update e sessionId state (getTextString Y ydoc) st))"

definition relay_update ::
  "'doc yjs \<Rightarrow> env \<Rightarrow> 'doc state \<Rightarrow> string \<Rightarrow> string \<Rightarrow> bytes
     \<Rightarrow> 'doc state \<times> emission list \<times> error option" where
  "relay_update Y e st sock sessionId update =
     (let out = [socket_to st sock sessionId (Yjs_update update)]
      in if publish_raises e then (st, out, Some RedisError)
         else (let (st', err) = save_document Y e sessionId
                                  (redis_publish (''yjs:'' @ sessionId) (stringify ''update'' update) st)
               in (st', out, err)))"

text \<open>
  The payload is a byte array here, so the handler's conversion of a payload that is no
  \<^verbatim>\<open>Uint8Array\<close> does not arise, and a missing payload is the empty one. The document is
  changed in place by \<^verbatim>\<open>Y.applyUpdate\<close>, so the registry holds what the call leaves, also
  when it raises.
\<close>

definition yjs_update_try ::
  "'doc yjs \<Rightarrow> env \<Rightarrow> 'doc state \<Rightarrow> string \<Rightarrow> string \<Rightarrow> bytes
     \<Rightarrow> 'doc state \<times> emission list \<times> error option" where
  "yjs_update_try Y e st sock sessionId update =
     (if length update = 0 then (st, [], None)
      else case yjsDocs st sessionId of
        None \<Rightarrow> relay_update Y e st sock sessionId update
      | Some ydoc \<Rightarrow>
          (case applyUpdate Y ydoc update of
             Raised d \<Rightarrow> (st\<lparr>yjsDocs := (yjsDocs st)(sessionId \<mapsto> d)\<rparr>, [], Some MergeError)
           | Applied d \<Rightarrow>
               relay_update Y e (st\<lparr>yjsDocs := (yjsDocs st)(sessionId \<mapsto> d)\<rparr>)
                 sock sessionId update))"

text \<open>
  The handler is the \<^verbatim>\<open>try\<close> with its \<^verbatim>\<open>catch\<close>, which logs and returns: the third
  component is the exception that leaves the handler.
\<close>

definition yjs_update ::
  "'doc yjs \<Rightarrow> env \<Rightarrow> 'doc state \<Rightarrow> string \<Rightarrow> string \<Rightarrow> bytes
     \<Rightarrow> 'doc state \<times> emission list \<times> error option" where
  "yjs_update Y e st sock sessionId update =
     (case yjs_update_try Y e st sock sessionId update of
        (st', out, caught) \<Rightarrow> (st', out, None))"

subsection \<open>yjs-awareness, request-sync, leave-session, disconnect\<close>

definition yjs_awareness ::
  "env \<Rightarrow> 'doc state \<Rightarrow> string \<Rightarrow> string \<Rightarrow> bytes \<Rightarrow> 'doc state \<times> emission list" where
  "yjs_awareness e st sock sessionId update =
     (if length update = 0 then (st, [])
      else if \<not> list_ex (\<lambda>byte. byte \<noteq> 0) update then (st, [])
      else if length update < 2 then (st, [])
      else (let out = [socket_to st sock sessionId (Yjs_awareness update)]
            in if publish_raises e then (st, out)
               else (redis_publish (''yjs:'' @ sessionId) (stringify ''awareness'' update) st, out)))"

definition request_sync ::
  "'doc yjs \<Rightarrow> 'doc state \<Rightarrow> string \<Rightarrow> string \<Rightarrow> 'doc state \<times> emission list" where
  "request_sync Y st sock sessionId =
     (case yjsDocs st sessionId of
        None \<Rightarrow> (st, [])
      | Some ydoc \<Rightarrow> (st, full_state Y sock ydoc))"

definition leave_session :: "'doc state \<Rightarrow> string \<Rightarrow> string \<Rightarrow> 'doc state \<times> emission list" where
  "leave_session st sock sessionId = (socket_leave sock sessionId st, [])"

text \<open>
  Socket.IO puts a new socket in the room named by its own id, and takes a closing socket out
  of every room before the \<^verbatim>\<open>disconnect\<close> handler runs; the handlers themselves only log.
\<close>

definition connection :: "'doc state \<Rightarrow> string \<Rightarrow> 'doc state \<times> emission list" where
  "connection st sock = (socket_join sock sock st, [])"

definition disconnect :: "'doc state \<Rightarrow> string \<Rightarrow> 'doc state \<times> emission list" where
  "disconnect st sock = (st\<lparr>rooms := (\<lambda>room. rooms st room - {sock})\<rparr>, [])"

subsection \<open>setupRedisPubSub\<close>

text \<open>\<^verbatim>\<open>s.replace(pat, rep)\<close> with a string pattern: the first occurrence only.\<close>

fun replace_first :: "string \<Rightarrow> string \<Rightarrow> string \<Rightarrow> string" where
  "replace_first pat rep [] = (if pat = [] then rep else [])"
| "replace_first pat rep (c # cs) =
     (if take (length pat) (c # cs) = pat then rep @ drop (length pat) (c # cs)
      else c # replace_first pat rep cs)"

text \<open>
  \<^verbatim>\<open>JSON.parse\<close> reads an integer literal as the nearest double, ties to even: below
  \<open>2 ^ 53\<close> in magnitude that is the integer itself, above it the 53 leading bits, rounded.
\<close>

function bit_length :: "int \<Rightarrow> nat" where
  "bit_length n = (if n \<le> 0 then 0 else Suc (bit_length (n div 2)))"
  by pat_completeness auto
termination
  by (relation "measure nat") auto

definition parsed_number :: "int \<Rightarrow> int" where
  "parsed_number n =
     (let m = \<bar>n\<bar> in
      if m < 2 ^ 53 then n
      else (let k = bit_length m - 53;
                q = m div 2 ^ k;
                r = m mod 2 ^ k;
                q' = (if 2 ^ k < 2 * r \<or> (2 * r = 2 ^ k \<and> odd q) then q + 1 else q)
            in sgn n * (q' * 2 ^ k)))"

text \<open>
  \<^verbatim>\<open>new Uint8Array(data.data)\<close>: each number modulo 256; no bytes when the array is missing.
\<close>

definition to_Uint8Array :: "int list option \<Rightarrow> bytes" where
  "to_Uint8Array xs =
     (case xs of None \<Rightarrow> [] | Some ns \<Rightarrow> map (\<lambda>n. word_of_int (parsed_number n)) ns)"

definition on_message :: "'doc state \<Rightarrow> json option \<Rightarrow> string \<Rightarrow> emission list" where
  "on_message st message chan =
     (let sessionId = replace_first ''yjs:'' [] chan
      in case message of
        None \<Rightarrow> []
      | Some data \<Rightarrow>
          if jtype data = ''update'' then
            (let update = to_Uint8Array (jdata data)
             in if length update > 0 then [io_to st sessionId (Yjs_update update)] else [])
          else if jtype data = ''awareness'' then
            (if jdata data = None \<or> jdata data = Some [] then []
             else let update = to_Uint8Array (jdata data)
                  in if \<not> list_ex (\<lambda>byte. byte \<noteq> 0) update then []
                     else if length update < 2 then []
                     else [io_to st sessionId (Yjs_awareness update)])
          else [])"

text \<open>Redis hands the oldest pending message to the subscriber.\<close>

definition redis_deliver :: "'doc state \<Rightarrow> 'doc state \<times> emission list" where
  "redis_deliver st =
     (case channel st of
        [] \<Rightarrow> (st, [])
      | (chan, message) # rest \<Rightarrow> (st\<lparr>channel := rest\<rparr>, on_message st message chan))"

subsection \<open>Runs of the server\<close>

datatype client_event =
    Connection string
  | Join_session string string string string
  | Leave_session string string
  | Yjs_update_from string string bytes
  | Yjs_awareness_from string string bytes
  | Request_sync string string
  | Disconnect string
  | Redis_message

fun handle :: "'doc yjs \<Rightarrow> 'doc state \<Rightarrow> env \<times> client_event \<Rightarrow> 'doc state \<times> emission list" where
  "handle Y st (e, Connection sock) = connection st sock"
| "handle Y st (e, Join_session sock sessionId userId userName) =
     join_session Y e st sock sessionId userId userName"
| "handle Y st (e, Leave_session sock sessionId) = leave_session st sock sessionId"
| "handle Y st (e, Yjs_update_from sock sessionId update) =
     (case yjs_update Y e st sock sessionId update of (st', out, err) \<Rightarrow> (st', out))"
| "handle Y st (e, Yjs_awareness_from sock sessionId update) =
     yjs_awareness e st sock sessionId update"
| "handle Y st (e, Request_sync sock sessionId) = request_sync Y st sock sessionId"
| "handle Y st (e, Disconnect sock) = disconnect st sock"
| "handle Y st (e, Redis_message) = redis_deliver st"

fun run :: "'doc yjs \<Rightarrow> 'doc state \<Rightarrow> (env \<times> client_event) list \<Rightarrow> 'doc state \<times> emission list" where
  "run Y st [] = (st, [])"
| "run Y st (ev # evs) =
     (case handle Y st ev of
        (st1, out1) \<Rightarrow> (case run Y st1 evs of (st2, out2) \<Rightarrow> (st2, out1 @ out2)))"

subsection \<open>The library on concrete updates\<close>

text \<open>
  The handlers pass updates on as opaque bytes; what becomes of a document is decided by
  Yjs, which is not part of this repository. For runs on concrete bytes this section follows
  Yjs 13 with update format 1 (\<^verbatim>\<open>readUpdateV2\<close> over an \<^verbatim>\<open>UpdateDecoderV1\<close>,
  \<^verbatim>\<open>Item.integrate\<close>, \<^verbatim>\<open>writeStateAsUpdate\<close>) on a fragment of the format: client blocks
  of string items put into the root text \<^verbatim>\<open>monaco\<close> with no origin on either side, and an
  empty delete set. The order is the library's: all client blocks are read, then their items
  are integrated, then the delete set is read. So an update that ends inside a block is
  rejected before anything is integrated, and one that ends before the delete set is rejected
  after its items have been integrated.

  A read gives a value and the bytes left, or finds the end of the array (the library
  throws), or meets something outside the fragment: another content, an origin, a parent
  given by id, a number of more than seven bytes, a string with a byte above 127 or running
  past the end of the array.
\<close>

datatype 'a read = Got 'a bytes | EndOfArray | Outside

definition then_read :: "'a read \<Rightarrow> ('a \<Rightarrow> bytes \<Rightarrow> 'b read) \<Rightarrow> 'b read" where
  "then_read r f =
     (case r of Got x rest \<Rightarrow> f x rest | EndOfArray \<Rightarrow> EndOfArray | Outside \<Rightarrow> Outside)"

fun varUint :: "nat \<Rightarrow> bytes \<Rightarrow> nat read" where
  "varUint k [] = EndOfArray"
| "varUint 0 (r # rest) = Outside"
| "varUint (Suc k) (r # rest) =
     (if r < 128 then Got (unat r) rest
      else case varUint k rest of
        Got n rest' \<Rightarrow> Got (unat r - 128 + 128 * n) rest'
      | EndOfArray \<Rightarrow> EndOfArray
      | Outside \<Rightarrow> Outside)"

definition readVarUint :: "bytes \<Rightarrow> nat read" where
  "readVarUint bs = varUint 7 bs"

definition byte_of_char :: "char \<Rightarrow> 8 word" where
  "byte_of_char c = of_char c"

definition char_of_byte :: "8 word \<Rightarrow> char" where
  "char_of_byte b = char_of (unat b)"

definition readVarString :: "bytes \<Rightarrow> string read" where
  "readVarString bs =
     then_read (readVarUint bs) (\<lambda>n rest.
       if length rest < n \<or> list_ex (\<lambda>b. 128 \<le> b) (take n rest) then Outside
       else Got (map char_of_byte (take n rest)) (drop n rest))"

text \<open>
  One struct of a block. The low five bits of the info byte are the content (4 is a string;
  0 and 10 are a GC and a Skip, with a length), bits 7 and 8 say that an origin follows, bit 6
  that a key in the parent does. With no origin the parent follows: 1 and the name of a root
  type. At the end of the array the info byte reads as \<^verbatim>\<open>undefined\<close>, the struct is taken
  for a GC and reading its length throws.
\<close>

definition readItem :: "bytes \<Rightarrow> string read" where
  "readItem bs =
     (case bs of
        [] \<Rightarrow> EndOfArray
      | info # rest \<Rightarrow>
          if unat info mod 32 = 0 \<or> unat info mod 32 = 10 then
            then_read (readVarUint rest) (\<lambda>len rest1. Outside)
          else if 64 \<le> unat info then Outside
          else then_read (readVarUint rest) (\<lambda>parentInfo rest1.
            if parentInfo \<noteq> 1 then Outside
            else then_read (readVarString rest1) (\<lambda>name rest2.
              if 32 \<le> unat info \<or> unat info mod 32 \<noteq> 4 then Outside
              else then_read (readVarString rest2) (\<lambda>str rest3.
                if name \<noteq> ''monaco'' \<or> str = [] then Outside else Got str rest3))))"

fun readStructs :: "nat \<Rightarrow> bytes \<Rightarrow> string list read" where
  "readStructs 0 bs = Got [] bs"
| "readStructs (Suc n) bs =
     then_read (readItem bs) (\<lambda>s rest.
       then_read (readStructs n rest) (\<lambda>ss rest'. Got (s # ss) rest'))"

record block =
  b_client :: nat
  b_clock :: nat
  b_strings :: "string list"

fun readBlocks :: "nat \<Rightarrow> bytes \<Rightarrow> block list read" where
  "readBlocks 0 bs = Got [] bs"
| "readBlocks (Suc n) bs =
     then_read (readVarUint bs) (\<lambda>numberOfStructs rest1.
       then_read (readVarUint rest1) (\<lambda>client rest2.
         then_read (readVarUint rest2) (\<lambda>clock rest3.
           then_read (readStructs numberOfStructs rest3) (\<lambda>ss rest4.
             then_read (readBlocks n rest4) (\<lambda>blocks rest5.
               Got (\<lparr>b_client = client, b_clock = clock, b_strings = ss\<rparr> # blocks) rest5)))))"

definition readClientsStructRefs :: "bytes \<Rightarrow> block list read" where
  "readClientsStructRefs bs =
     then_read (readVarUint bs) (\<lambda>numOfStateUpdates rest. readBlocks numOfStateUpdates rest)"

text \<open>
  A document: its own client id and the items of the root text in document order. Every item
  of the fragment has no left origin, and clocks of one client run from 0 without gaps, so
  the state of a client is the length of its items.
\<close>

record item =
  i_client :: nat
  i_clock :: nat
  i_rightOrigin :: "(nat \<times> nat) option"
  i_content :: string

record ydoc =
  clientID :: nat
  items :: "item list"

definition getState :: "item list \<Rightarrow> nat \<Rightarrow> nat" where
  "getState its c =
     sum_list (map (\<lambda>i. length (i_content i)) (filter (\<lambda>i. i_client i = c) its))"

text \<open>
  \<^verbatim>\<open>Item.integrate\<close> for an item with no origin on either side: it walks the items from
  the start; an item of a smaller client id moves the place behind it, an item of no smaller
  client id and no right origin ends the walk.
\<close>

fun scan :: "nat \<Rightarrow> item list \<Rightarrow> nat \<Rightarrow> nat \<Rightarrow> nat" where
  "scan c [] pos left = left"
| "scan c (o1 # os) pos left =
     (if i_client o1 < c then scan c os (Suc pos) (Suc pos)
      else if i_rightOrigin o1 = None then left
      else scan c os (Suc pos) left)"

definition integrate :: "item \<Rightarrow> item list \<Rightarrow> item list" where
  "integrate it its = (let l = scan (i_client it) its 0 0 in take l its @ it # drop l its)"

text \<open>
  The structs of one block: at the document's clock the struct is integrated, wholly below
  it the struct is known and skipped; ahead of it, or partly below, is outside the fragment.
\<close>

fun integrateBlock :: "nat \<Rightarrow> nat \<Rightarrow> string list \<Rightarrow> item list \<Rightarrow> item list option" where
  "integrateBlock c clock [] its = Some its"
| "integrateBlock c clock (s # ss) its =
     (let localClock = getState its c in
      if localClock < clock then None
      else if localClock = clock then
        integrateBlock c (clock + length s) ss
          (integrate \<lparr>i_client = c, i_clock = clock, i_rightOrigin = None, i_content = s\<rparr> its)
      else if localClock - clock < length s then None
      else integrateBlock c (clock + length s) ss its)"

fun integrateBlocks :: "block list \<Rightarrow> item list \<Rightarrow> item list option" where
  "integrateBlocks [] its = Some its"
| "integrateBlocks (b # bs) its =
     (case integrateBlock (b_client b) (b_clock b) (b_strings b) its of
        None \<Rightarrow> None
      | Some its' \<Rightarrow> integrateBlocks bs its')"

text \<open>The blocks are taken by client id, the highest first.\<close>

definition integrateStructs :: "block list \<Rightarrow> item list \<Rightarrow> item list option" where
  "integrateStructs blocks its =
     (if distinct (map b_client blocks)
      then integrateBlocks (rev (sort_key b_client blocks)) its else None)"

text \<open>
  \<^verbatim>\<open>Y.applyUpdate\<close> on the fragment; \<open>None\<close> when the update is outside it. The bytes
  behind the delete set are not read. An update that brings items of the document's own
  client id makes the library draw a new id for the document, at random: that is outside the
  fragment too.
\<close>

definition readUpdate :: "ydoc \<Rightarrow> bytes \<Rightarrow> ydoc apply_result option" where
  "readUpdate d u =
     (case readClientsStructRefs u of
        EndOfArray \<Rightarrow> Some (Raised d)
      | Outside \<Rightarrow> None
      | Got blocks rest \<Rightarrow>
          (case integrateStructs blocks (items d) of
             None \<Rightarrow> None
           | Some its \<Rightarrow>
               if getState its (clientID d) \<noteq> getState (items d) (clientID d) then None
               else
                 (case readVarUint rest of
                    EndOfArray \<Rightarrow> Some (Raised (d\<lparr>items := its\<rparr>))
                  | Outside \<Rightarrow> None
                  | Got numClients rest' \<Rightarrow>
                      if numClients = 0 then Some (Applied (d\<lparr>items := its\<rparr>)) else None)))"

text \<open>\<^verbatim>\<open>Y.encodeStateAsUpdate\<close>: the blocks by client id, the highest first, and no deletions.\<close>

function writeVarUint :: "nat \<Rightarrow> bytes" where
  "writeVarUint n =
     (if n < 128 then [of_nat n] else of_nat (128 + n mod 128) # writeVarUint (n div 128))"
  by pat_completeness auto
termination
  by (relation "measure (\<lambda>n. n)") auto

definition writeVarString :: "string \<Rightarrow> bytes" where
  "writeVarString s = writeVarUint (length s) @ map byte_of_char s"

definition writeItem :: "item \<Rightarrow> bytes" where
  "writeItem it =
     (case i_rightOrigin it of
        None \<Rightarrow> 4 # 1 # writeVarString ''monaco''
      | Some (client, clock) \<Rightarrow> 68 # writeVarUint client @ writeVarUint clock)
     @ writeVarString (i_content it)"

definition writeStructs :: "item list \<Rightarrow> nat \<Rightarrow> bytes" where
  "writeStructs its c =
     (let structs = sort_key i_clock (filter (\<lambda>i. i_client i = c) its)
      in writeVarUint (length structs) @ writeVarUint c
         @ writeVarUint (case structs of [] \<Rightarrow> 0 | s # _ \<Rightarrow> i_clock s)
         @ concat (map writeItem structs))"

definition writeStateAsUpdate :: "ydoc \<Rightarrow> bytes" where
  "writeStateAsUpdate d =
     (let clients = rev (sort (remdups (map i_client (items d))))
      in writeVarUint (length clients) @ concat (map (writeStructs (items d)) clients) @ [0])"

text \<open>
  \<^verbatim>\<open>yText.insert(0, s)\<close>, the only insertion the server makes: a new item of the document's
  own client in front of the first item, which becomes its right origin. An empty string
  inserts nothing. Other indices are outside the fragment and leave the document as it is.
\<close>

definition insert_front :: "ydoc \<Rightarrow> nat \<Rightarrow> string \<Rightarrow> ydoc" where
  "insert_front d index s =
     (if index = 0 \<and> s \<noteq> [] then
        d\<lparr>items := \<lparr>i_client = clientID d, i_clock = getState (items d) (clientID d),
                     i_rightOrigin = (case items d of [] \<Rightarrow> None
                                      | f # _ \<Rightarrow> Some (i_client f, i_clock f)),
                     i_content = s\<rparr> # items d\<rparr>
      else d)"

definition toString :: "ydoc \<Rightarrow> string" where
  "toString d = concat (map i_content (items d))"

text \<open>
  The library as the handlers see it. An update outside the fragment is rejected here with
  the document untouched; that is a choice of this model, not a fact about the library, and
  no run below uses such an update: each states the \<open>readUpdate\<close> of its bytes. A new
  document's client id is drawn at random by the library; here it is 100, and the texts of
  the runs below are the same for every id above 1, the id of the client in them.
\<close>

definition Yjs :: "ydoc yjs" where
  "Yjs = \<lparr>newDoc = \<lparr>clientID = 100, items = []\<rparr>,
          applyUpdate = (\<lambda>d u. case readUpdate d u of Some r \<Rightarrow> r | None \<Rightarrow> Raised d),
          encodeStateAsUpdate = (\<lambda>d. Some (writeStateAsUpdate d)),
          getTextString = toString,
          textLength = (\<lambda>d. length (toString d)),
          insertText = insert_front,
          clientsSize = (\<lambda>d. length (remdups (map i_client (items d))))\<rparr>"

subsection \<open>Concrete states and updates\<close>

definition empty_state :: "ydoc state" where
  "empty_state = \<lparr>yjsDocs = Map.empty, sessionParticipants = Map.empty, rooms = (\<lambda>r. {}),
                  codeSessions = Map.empty, participants = Map.empty, dbLog = [], channel = []\<rparr>"

text \<open>An environment in which nothing raises.\<close>

definition calm :: env where
  "calm = \<lparr>find_raises = False, upsert_raises = False, publish_raises = False,
           update_raises = False, now = 7, random_color = ''#a1b2c3''\<rparr>"

text \<open>
  The update a client with id 1 makes by typing \<^verbatim>\<open>XY\<close> into an empty \<^verbatim>\<open>monaco\<close>: one
  block, one struct, client 1, clock 0, a string item with the root \<^verbatim>\<open>monaco\<close> as parent,
  and the empty delete set. \<^verbatim>\<open>cut_XY\<close> is the same update without its last byte.
\<close>

definition insert_XY :: bytes where
  "insert_XY = [1, 1, 1, 0, 4, 1, 6, 109, 111, 110, 97, 99, 111, 2, 88, 89, 0]"

definition cut_XY :: bytes where
  "cut_XY = [1, 1, 1, 0, 4, 1, 6, 109, 111, 110, 97, 99, 111, 2, 88, 89]"

text \<open>The documents these runs meet.\<close>

definition doc_hi :: ydoc where
  "doc_hi = \<lparr>clientID = 100, items =
     [\<lparr>i_client = 100, i_clock = 0, i_rightOrigin = None, i_content = ''hi''\<rparr>]\<rparr>"

definition doc_XYhi :: ydoc where
  "doc_XYhi = \<lparr>clientID = 100, items =
     [\<lparr>i_client = 1, i_clock = 0, i_rightOrigin = None, i_content = ''XY''\<rparr>,
      \<lparr>i_client = 100, i_clock = 0, i_rightOrigin = None, i_content = ''hi''\<rparr>]\<rparr>"

definition doc_XY :: ydoc where
  "doc_XY = \<lparr>clientID = 100, items =
     [\<lparr>i_client = 1, i_clock = 0, i_rightOrigin = None, i_content = ''XY''\<rparr>]\<rparr>"

text \<open>The two registries of one state are contained in those of another.\<close>

definition registries_le :: "'doc state \<Rightarrow> 'doc state \<Rightarrow> bool" where
  "registries_le st st' \<longleftrightarrow>
     dom (yjsDocs st) \<subseteq> dom (yjsDocs st') \<and>
     (\<forall>sid users. sessionParticipants st sid = Some users \<longrightarrow>
        (\<exists>users'. sessionParticipants st' sid = Some users' \<and> users \<subseteq> users'))"

text \<open>A database with the one session \<^verbatim>\<open>S1\<close>, whose row has a text snapshot only.\<close>

definition one_session :: "ydoc state" where
  "one_session = empty_state\<lparr>codeSessions :=
     [''S1'' \<mapsto> \<lparr>yjsState = None, lastSnapshot = Some ''hi'', updatedAt = 1\<rparr>]\<rparr>"


text \<open>The socket in the room of \<^verbatim>\<open>S1\<close>, as user \<^verbatim>\<open>u1\<close>.\<close>

definition joined :: "ydoc state" where
  "joined = fst (run Yjs one_session
              [(calm, Connection ''c1''), (calm, Join_session ''c1'' ''S1'' ''u1'' ''Ann'')])"

text \<open>Two sockets in the room of \<^verbatim>\<open>S1\<close>.\<close>

definition two_clients :: "ydoc state" where
  "two_clients = fst (run Yjs one_session
     [(calm, Connection ''c1''), (calm, Join_session ''c1'' ''S1'' ''u1'' ''Ann''),
      (calm, Connection ''c2''), (calm, Join_session ''c2'' ''S1'' ''u2'' ''Bob'')])"

text \<open>Two sessions, one socket in the room of each.\<close>

definition two_rooms :: "ydoc state" where
  "two_rooms = fst (run Yjs
     (empty_state\<lparr>codeSessions :=
        [''S1'' \<mapsto> \<lparr>yjsState = None, lastSnapshot = Some ''hi'', updatedAt = 1\<rparr>,
         ''S2'' \<mapsto> \<lparr>yjsState = None, lastSnapshot = None, updatedAt = 2\<rparr>]\<rparr>)
     [(calm, Connection ''c1''), (calm, Join_session ''c1'' ''S1'' ''u1'' ''Ann''),
      (calm, Connection ''c2''), (calm, Join_session ''c2'' ''S2'' ''u2'' ''Bob'')])"

text \<open>
  A session \<^verbatim>\<open>S2\<close> whose row has the text snapshot \<^verbatim>\<open>print(1)\<close> and a binary snapshot
  that ends inside its first block.
\<close>

definition corrupt_session :: "ydoc state" where
  "corrupt_session = empty_state\<lparr>codeSessions :=
     [''S2'' \<mapsto> \<lparr>yjsState = Some [9, 9, 9], lastSnapshot = Some ''print(1)'',
                updatedAt = 1\<rparr>]\<rparr>"

text \<open>The same session with a binary snapshot that has lost its last byte.\<close>

definition cut_session :: "ydoc state" where
  "cut_session = empty_state\<lparr>codeSessions :=
     [''S2'' \<mapsto> \<lparr>yjsState = Some cut_XY, lastSnapshot = Some ''print(1)'',
                updatedAt = 1\<rparr>]\<rparr>"

section \<open>Properties\<close>

section \<open>Properties\<close>

subsection \<open>The library on the updates used\<close>


lemma read_cut_XY: "readUpdate doc_hi cut_XY = Some (Raised doc_XYhi)"
  by code_simp

lemma read_cut_XY_new: "readUpdate (newDoc Yjs) cut_XY = Some (Raised doc_XY)"
  by code_simp

lemma read_999: "readUpdate (newDoc Yjs) [9, 9, 9] = Some (Raised (newDoc Yjs))"
  by code_simp

lemma read_00: "readUpdate doc_hi [0, 0] = Some (Applied doc_hi)"
  by code_simp


lemma apply_cut_XY: "applyUpdate Yjs doc_hi cut_XY = Raised doc_XYhi"
  by (simp add: Yjs_def read_cut_XY)

lemma write_doc_hi:
  "writeStateAsUpdate doc_hi = [1, 1, 100, 0, 4, 1, 6, 109, 111, 110, 97, 99, 111, 2, 104, 105, 0]"
  by code_simp

lemma write_doc_XYhi:
  "writeStateAsUpdate doc_XYhi =
     [2, 1, 100, 0, 4, 1, 6, 109, 111, 110, 97, 99, 111, 2, 104, 105,
      1, 1, 0, 4, 1, 6, 109, 111, 110, 97, 99, 111, 2, 88, 89, 0]"
  by code_simp

text \<open>
  An update of zero bytes only never changes a document: the library reads no block and no
  deletion from it, or finds the end of the array before it has integrated anything.
\<close>

lemma varUint_zero: "varUint (Suc k) (0 # rest) = Got 0 rest"
  by simp

lemma readVarUint_zero: "readVarUint (0 # rest) = Got 0 rest"
proof -
  have s: "(7::nat) = Suc 6" by simp
  have "varUint 7 (0 # rest) = varUint (Suc 6) (0 # rest)"
    by (rule arg_cong [where f = "\<lambda>k. varUint k (0 # rest)", OF s])
  also have "\<dots> = Got 0 rest" by (rule varUint_zero)
  finally show ?thesis unfolding readVarUint_def .
qed

lemma readUpdate_all_zero:
  assumes "\<forall>b\<in>set u. b = 0"
  shows "readUpdate d u = Some (Raised d) \<or> readUpdate d u = Some (Applied d)"
proof (cases u)
  case Nil
  then show ?thesis
    by (simp add: readUpdate_def readClientsStructRefs_def readVarUint_def then_read_def)
next
  case (Cons a rest)
  with assms have a: "a = 0" and r: "\<forall>b\<in>set rest. b = 0" by simp_all
  have i: "integrateStructs [] (items d) = Some (items d)"
    by (simp add: integrateStructs_def)
  have blocks: "readClientsStructRefs u = Got [] rest"
    using Cons a by (simp add: readClientsStructRefs_def readVarUint_zero then_read_def)
  show ?thesis
  proof (cases rest)
    case Nil
    then have "readVarUint rest = EndOfArray" by (simp add: readVarUint_def)
    with blocks i show ?thesis by (simp add: readUpdate_def)
  next
    case (Cons b rest')
    with r have "readVarUint rest = Got 0 rest'" by (simp add: readVarUint_zero)
    with blocks i show ?thesis by (simp add: readUpdate_def)
  qed
qed

lemma Yjs_all_zero:
  "\<forall>b\<in>set u. b = 0 \<Longrightarrow> applyUpdate Yjs d u = Raised d \<or> applyUpdate Yjs d u = Applied d"
  using readUpdate_all_zero [of u d] by (auto simp: Yjs_def)

subsection \<open>The concrete states\<close>

lemma joined_docs: "yjsDocs joined ''S1'' = Some doc_hi"
  by code_simp

lemma joined_participants: "sessionParticipants joined ''S1'' = Some {''u1''}"
  by code_simp

lemma joined_rooms: "rooms joined ''S1'' = {''c1''}" "rooms joined ''c1'' = {''c1''}"
  by code_simp+


lemma two_rooms_rooms:
  "rooms two_rooms ''S1'' = {''c1''}" "rooms two_rooms ''S2'' = {''c2''}"
  "channel two_rooms = []"
  by code_simp+


subsection \<open>Joining a session that does not exist\<close>

text \<open>
  C7. When the lookup answers and finds no session with the id, the joining socket alone gets
  \<^verbatim>\<open>session-not-found\<close> and the state is the one before: the socket is in no new room, no
  document is created, no participant is tracked, no row is upserted and no write is issued.
\<close>

theorem join_unknown_session:
  assumes "\<not> find_raises e" and "codeSessions st sessionId = None"
  shows "join_session Y e st sock sessionId userId userName =
           (st, [\<lparr>recipients = {sock}, event = Session_not_found\<rparr>])"
  using assms by (simp add: join_session_def join_session_try_def socket_emit_def)

theorem join_unknown_session_witness:
  "\<not> find_raises calm \<and> codeSessions empty_state ''S9'' = None \<and>
   join_session Yjs calm empty_state ''c1'' ''S9'' ''u1'' ''Ann'' =
     (empty_state, [\<lparr>recipients = {''c1''}, event = Session_not_found\<rparr>])"
  using join_unknown_session [of calm empty_state "''S9''" Yjs "''c1''" "''u1''" "''Ann''"]
  by (simp add: calm_def empty_state_def)

subsection \<open>The registries only grow\<close>

lemma registries_le_refl: "registries_le st st"
  by (simp add: registries_le_def)

lemma registries_le_trans:
  "registries_le a b \<Longrightarrow> registries_le b c \<Longrightarrow> registries_le a c"
  unfolding registries_le_def by (meson subset_trans)

lemma registries_le_same:
  "yjsDocs st' = yjsDocs st \<Longrightarrow> sessionParticipants st' = sessionParticipants st
     \<Longrightarrow> registries_le st st'"
  by (simp add: registries_le_def)

lemma codeSession_update_frame:
  "codeSession_update e sid bin txt st = (st', r)
     \<Longrightarrow> yjsDocs st' = yjsDocs st \<and> sessionParticipants st' = sessionParticipants st
         \<and> rooms st' = rooms st \<and> participants st' = participants st \<and> channel st' = channel st"
  by (auto simp: codeSession_update_def Let_def split: if_splits option.splits)

lemma save_document_frame:
  "save_document Y e sid st = (st', r)
     \<Longrightarrow> yjsDocs st' = yjsDocs st \<and> sessionParticipants st' = sessionParticipants st
         \<and> rooms st' = rooms st \<and> participants st' = participants st \<and> channel st' = channel st"
  by (auto simp: save_document_def split: option.splits dest: codeSession_update_frame)

lemma relay_update_frame:
  "relay_update Y e st sock sid u = (st', out, r)
     \<Longrightarrow> yjsDocs st' = yjsDocs st \<and> sessionParticipants st' = sessionParticipants st
         \<and> rooms st' = rooms st \<and> participants st' = participants st"
  by (auto simp: relay_update_def Let_def redis_publish_def split: if_splits prod.splits
           dest!: save_document_frame)

lemma yjs_update_try_grows:
  "yjs_update_try Y e st sock sid u = (st', out, r) \<Longrightarrow> registries_le st st'"
  by (auto simp: yjs_update_try_def registries_le_def
           split: if_splits option.splits apply_result.splits
           dest!: relay_update_frame)

lemma yjs_update_grows:
  "yjs_update Y e st sock sid u = (st', out, r) \<Longrightarrow> registries_le st st'"
  by (auto simp: yjs_update_def split: prod.splits dest: yjs_update_try_grows)

lemma join_session_try_grows:
  "join_session_try Y e st sock sid uid un = (st', out, r) \<Longrightarrow> registries_le st st'"
  by (auto simp: join_session_try_def registries_le_def Let_def obtain_doc_def
                 track_participant_def socket_join_def participant_upsert_def
           split: if_splits option.splits prod.splits)

lemma join_session_grows:
  "join_session Y e st sock sid uid un = (st', out) \<Longrightarrow> registries_le st st'"
  by (auto simp: join_session_def split: prod.splits option.splits dest: join_session_try_grows)

lemma handle_grows: "handle Y st ev = (st', out) \<Longrightarrow> registries_le st st'"
proof (cases ev)
  case (Pair e c)
  assume h: "handle Y st ev = (st', out)"
  show ?thesis
  proof (cases c)
    case (Connection sock)
    with Pair h show ?thesis
      by (auto simp: connection_def socket_join_def intro: registries_le_same)
  next
    case (Join_session sock sid uid un)
    with Pair h show ?thesis by (auto dest: join_session_grows)
  next
    case (Leave_session sock sid)
    with Pair h show ?thesis
      by (auto simp: leave_session_def socket_leave_def intro: registries_le_same)
  next
    case (Yjs_update_from sock sid u)
    with Pair h show ?thesis by (auto split: prod.splits dest: yjs_update_grows)
  next
    case (Yjs_awareness_from sock sid u)
    with Pair h show ?thesis
      by (auto simp: yjs_awareness_def Let_def redis_publish_def split: if_splits
               intro: registries_le_same)
  next
    case (Request_sync sock sid)
    with Pair h show ?thesis
      by (auto simp: request_sync_def split: option.splits intro: registries_le_same)
  next
    case (Disconnect sock)
    with Pair h show ?thesis by (auto simp: disconnect_def intro: registries_le_same)
  next
    case Redis_message
    with Pair h show ?thesis
      by (auto simp: redis_deliver_def split: list.splits intro: registries_le_same)
  qed
qed

lemma run_grows: "run Y st evs = (st', out) \<Longrightarrow> registries_le st st'"
proof (induction evs arbitrary: st st' out)
  case Nil
  then show ?case by (simp add: registries_le_refl)
next
  case (Cons ev evs)
  obtain st1 out1 where h1: "handle Y st ev = (st1, out1)" by (cases "handle Y st ev")
  obtain st2 out2 where h2: "run Y st1 evs = (st2, out2)" by (cases "run Y st1 evs")
  from Cons.prems h1 h2 have "st' = st2" by simp
  with handle_grows [OF h1] Cons.IH [OF h2] show ?case
    by (blast intro: registries_le_trans)
qed

text \<open>
  C10. Over any sequence of events (joins, leaves and disconnects, and the other events as
  well) a session that has a document in \<^verbatim>\<open>yjsDocs\<close> keeps one, and a user id in a session's
  set in \<^verbatim>\<open>sessionParticipants\<close> stays in it: no handler deletes from either map.
\<close>

theorem registries_only_grow:
  assumes "run Y st evs = (st', out)"
  shows "dom (yjsDocs st) \<subseteq> dom (yjsDocs st') \<and>
         (\<forall>sid users. sessionParticipants st sid = Some users \<longrightarrow>
            (\<exists>users'. sessionParticipants st' sid = Some users' \<and> users \<subseteq> users'))"
  using run_grows [OF assms] by (simp add: registries_le_def)
theorem registries_only_grow_witness:
  "sessionParticipants joined ''S1'' = Some {''u1''} \<and>
   dom (yjsDocs joined) \<subseteq>
     dom (yjsDocs (fst (run Yjs joined
            [(calm, Leave_session ''c1'' ''S1''), (calm, Disconnect ''c1'')]))) \<and>
   (\<exists>users'. sessionParticipants (fst (run Yjs joined
            [(calm, Leave_session ''c1'' ''S1''), (calm, Disconnect ''c1'')])) ''S1'' = Some users'
      \<and> {''u1''} \<subseteq> users')"
proof -
  let ?r = "run Yjs joined [(calm, Leave_session ''c1'' ''S1''), (calm, Disconnect ''c1'')]"
  have "?r = (fst ?r, snd ?r)" by simp
  from registries_only_grow [OF this] joined_participants show ?thesis by blast
qed

subsection \<open>Exceptions while joining\<close>

lemma full_state_cases:
  "full_state Y sock d = [] \<or>
   (\<exists>sv. encodeStateAsUpdate Y d = Some sv
      \<and> full_state Y sock d = [\<lparr>recipients = {sock}, event = Yjs_update sv\<rparr>])"
  by (cases "encodeStateAsUpdate Y d") (simp_all add: full_state_def socket_emit_def)

lemma full_state_recipients: "em \<in> set (full_state Y sock d) \<Longrightarrow> recipients em = {sock}"
  using full_state_cases [of Y sock d] by auto

lemma full_state_payload:
  "\<lparr>recipients = r1, event = Yjs_update p1\<rparr> \<in> set (full_state Y sock d)
     \<Longrightarrow> \<lparr>recipients = r2, event = Yjs_update p2\<rparr> \<in> set (full_state Y sock d) \<Longrightarrow> p1 = p2"
  using full_state_cases [of Y sock d] by auto

lemma full_state_events: "em \<in> set (full_state Y sock d) \<Longrightarrow> event em \<noteq> Unauthorized"
  using full_state_cases [of Y sock d] by auto

text \<open>
  The \<^verbatim>\<open>try\<close> of the join handler ends with an exception exactly when the session lookup
  raises, or the session is found and the participant upsert raises; it emits no
  \<^verbatim>\<open>unauthorized\<close> itself.
\<close>

lemma join_try_cases:
  "join_session_try Y e st sock sid uid un = (st', out, r) \<Longrightarrow>
     (r \<noteq> None \<longleftrightarrow> find_raises e \<or> (codeSessions st sid \<noteq> None \<and> upsert_raises e)) \<and>
     (find_raises e \<longrightarrow> st' = st \<and> out = []) \<and>
     (\<forall>em \<in> set out. event em \<noteq> Unauthorized)"
  by (auto simp: join_session_try_def Let_def split_def socket_emit_def socket_to_def
           split: if_splits option.splits dest: full_state_events)

text \<open>
  Against C9 as stated: the persisted binary snapshot \<^verbatim>\<open>[9, 9, 9]\<close> makes
  \<^verbatim>\<open>Y.applyUpdate\<close> raise while the join is processed (the array ends inside the first
  block). The handler's inner \<^verbatim>\<open>catch\<close> takes the exception, and the join goes on: it
  emits the document made from the text snapshot and \<^verbatim>\<open>user-joined\<close>, and no
  \<^verbatim>\<open>unauthorized\<close>.
\<close>

theorem inner_exception_counterexample:
  "readUpdate (newDoc Yjs) [9, 9, 9] = Some (Raised (newDoc Yjs)) \<and>
   applyUpdate Yjs (newDoc Yjs) [9, 9, 9] = Raised (newDoc Yjs) \<and>
   length (snd (join_session Yjs calm corrupt_session ''c1'' ''S2'' ''u1'' ''Ann'')) = 2 \<and>
   Unauthorized \<notin>
     set (map event (snd (join_session Yjs calm corrupt_session ''c1'' ''S2'' ''u1'' ''Ann'')))"
  by code_simp

text \<open>
  C9, as the code has it. The join emits \<^verbatim>\<open>unauthorized\<close> exactly when an exception ends
  the handler's \<^verbatim>\<open>try\<close>: the session lookup raises, or the session is found and the
  participant upsert raises. It goes to the joining socket only, and when the lookup raises
  nothing else has happened. Exceptions of \<^verbatim>\<open>Y.applyUpdate\<close> and
  \<^verbatim>\<open>Y.encodeStateAsUpdate\<close> are not among them, whatever the library does.
\<close>

theorem unauthorized_iff_try_ends:
  assumes "join_session Y e st sock sid uid un = (st', out)"
  shows "((\<exists>em \<in> set out. event em = Unauthorized) \<longleftrightarrow>
            find_raises e \<or> (codeSessions st sid \<noteq> None \<and> upsert_raises e)) \<and>
         (\<forall>em \<in> set out. event em = Unauthorized \<longrightarrow> recipients em = {sock}) \<and>
         (find_raises e \<longrightarrow> st' = st \<and> out = [\<lparr>recipients = {sock}, event = Unauthorized\<rparr>])"
proof -
  obtain st1 out1 r where t: "join_session_try Y e st sock sid uid un = (st1, out1, r)"
    by (cases "join_session_try Y e st sock sid uid un")
  note c = join_try_cases [OF t]
  show ?thesis
  proof (cases r)
    case None
    with t assms have "st' = st1" "out = out1" by (simp_all add: join_session_def)
    with c None show ?thesis by auto
  next
    case (Some err)
    with t assms have "st' = st1" "out = out1 @ [\<lparr>recipients = {sock}, event = Unauthorized\<rparr>]"
      by (simp_all add: join_session_def socket_emit_def)
    with c Some show ?thesis by auto
  qed
qed

theorem unauthorized_iff_try_ends_witness:
  "find_raises (calm\<lparr>find_raises := True\<rparr>) \<and>
   join_session Yjs (calm\<lparr>find_raises := True\<rparr>) one_session ''c1'' ''S1'' ''u1'' ''Ann'' =
     (one_session, [\<lparr>recipients = {''c1''}, event = Unauthorized\<rparr>])"
proof -
  let ?e = "calm\<lparr>find_raises := True\<rparr>"
  let ?r = "join_session Yjs ?e one_session ''c1'' ''S1'' ''u1'' ''Ann''"
  have "?r = (fst ?r, snd ?r)" by simp
  from unauthorized_iff_try_ends [OF this] show ?thesis
    by (cases ?r) simp
qed

subsection \<open>request-sync\<close>

lemma request_sync_state: "fst (request_sync Y st sock sid) = st"
  by (simp add: request_sync_def split: option.splits)

text \<open>
  C5. \<^verbatim>\<open>request-sync\<close> leaves the whole state as it was (documents, participant sets, both
  tables, no write issued) and emits to the asking socket only. Asked twice in a row it
  answers the same: any two full-state payloads of the two answers are the same bytes, so
  applying each to a new document gives the same result.
\<close>

theorem request_sync_idempotent:
  "fst (request_sync Y st sock sid) = st \<and>
   request_sync Y (fst (request_sync Y st sock sid)) sock sid = request_sync Y st sock sid \<and>
   (\<forall>em \<in> set (snd (request_sync Y st sock sid)). recipients em = {sock}) \<and>
   (\<forall>p1 p2. \<lparr>recipients = {sock}, event = Yjs_update p1\<rparr> \<in> set (snd (request_sync Y st sock sid))
       \<longrightarrow> \<lparr>recipients = {sock}, event = Yjs_update p2\<rparr>
             \<in> set (snd (request_sync Y (fst (request_sync Y st sock sid)) sock sid))
       \<longrightarrow> p1 = p2 \<and> applyUpdate Y (newDoc Y) p1 = applyUpdate Y (newDoc Y) p2)"
proof (intro conjI)
  show s: "fst (request_sync Y st sock sid) = st" by (rule request_sync_state)
  show "request_sync Y (fst (request_sync Y st sock sid)) sock sid = request_sync Y st sock sid"
    by (simp add: s)
  show "\<forall>em \<in> set (snd (request_sync Y st sock sid)). recipients em = {sock}"
    by (auto simp: request_sync_def split: option.splits dest: full_state_recipients)
  show "\<forall>p1 p2. \<lparr>recipients = {sock}, event = Yjs_update p1\<rparr> \<in> set (snd (request_sync Y st sock sid))
       \<longrightarrow> \<lparr>recipients = {sock}, event = Yjs_update p2\<rparr>
             \<in> set (snd (request_sync Y (fst (request_sync Y st sock sid)) sock sid))
       \<longrightarrow> p1 = p2 \<and> applyUpdate Y (newDoc Y) p1 = applyUpdate Y (newDoc Y) p2"
    unfolding s by (auto simp: request_sync_def split: option.splits dest: full_state_payload)
qed
theorem request_sync_idempotent_witness:
  "yjsDocs joined ''S1'' = Some doc_hi \<and>
   request_sync Yjs joined ''c1'' ''S1'' =
     (joined, [\<lparr>recipients = {''c1''}, event = Yjs_update (writeStateAsUpdate doc_hi)\<rparr>]) \<and>
   request_sync Yjs (fst (request_sync Yjs joined ''c1'' ''S1'')) ''c1'' ''S1'' =
     (joined, [\<lparr>recipients = {''c1''}, event = Yjs_update (writeStateAsUpdate doc_hi)\<rparr>])"
proof -
  have a: "request_sync Yjs joined ''c1'' ''S1'' =
             (joined, [\<lparr>recipients = {''c1''}, event = Yjs_update (writeStateAsUpdate doc_hi)\<rparr>])"
    by (simp add: request_sync_def joined_docs full_state_def socket_emit_def Yjs_def
                  write_doc_hi) code_simp
  from request_sync_idempotent [of Yjs joined "''c1''" "''S1''"] a joined_docs
  show ?thesis by simp
qed

subsection \<open>leave-session and disconnect\<close>

text \<open>
  Leaving takes the socket out of the session's room and out of no other; disconnecting takes
  it out of every room. Neither touches the participant table nor issues a write, and both
  leave the registries and the session table as they were.
\<close>

lemma leave_writes_nothing:
  "(case leave_session st sock sid of (st', out) \<Rightarrow>
      sock \<notin> rooms st' sid \<and> rooms st' = (rooms st)(sid := rooms st sid - {sock}) \<and>
      participants st' = participants st \<and> dbLog st' = dbLog st \<and>
      codeSessions st' = codeSessions st \<and> yjsDocs st' = yjsDocs st \<and>
      sessionParticipants st' = sessionParticipants st \<and> out = []) \<and>
   (case disconnect st sock of (st', out) \<Rightarrow>
      (\<forall>r. sock \<notin> rooms st' r) \<and>
      participants st' = participants st \<and> dbLog st' = dbLog st \<and>
      codeSessions st' = codeSessions st \<and> yjsDocs st' = yjsDocs st \<and>
      sessionParticipants st' = sessionParticipants st \<and> out = [])"
  by (simp add: leave_session_def disconnect_def socket_leave_def)

text \<open>
  C8. User \<^verbatim>\<open>u1\<close> has joined \<^verbatim>\<open>S1\<close> through socket \<^verbatim>\<open>c1\<close> and is its only
  participant; the join has written the participant's row with \<^verbatim>\<open>leftAt\<close> null, which the
  repository reads as "active". The socket leaves the session, or disconnects: the room is
  empty afterwards, and the row still has \<^verbatim>\<open>leftAt\<close> null, where the claim has it set to the
  time of leaving.
\<close>

theorem leave_keeps_leftAt_null:
  "map_option leftAt (participants joined (''S1'', ''u1'')) = Some None \<and>
   rooms (fst (run Yjs joined [(calm, Leave_session ''c1'' ''S1'')])) ''S1'' = {} \<and>
   map_option leftAt (participants (fst (run Yjs joined [(calm, Leave_session ''c1'' ''S1'')]))
       (''S1'', ''u1'')) = Some None \<and>
   rooms (fst (run Yjs joined [(calm, Disconnect ''c1'')])) ''S1'' = {} \<and>
   map_option leftAt (participants (fst (run Yjs joined [(calm, Disconnect ''c1'')]))
       (''S1'', ''u1'')) = Some None"
  by code_simp

subsection \<open>Where an update goes\<close>

lemma replace_first_prefix: "replace_first pat rep (pat @ s) = rep @ s"
proof (cases "pat @ s")
  case Nil
  then show ?thesis by simp
next
  case (Cons c cs)
  have "take (length pat) (pat @ s) = pat" and "drop (length pat) (pat @ s) = s" by simp_all
  with Cons show ?thesis by (metis replace_first.simps(2))
qed
lemma parsed_number_byte: "parsed_number (uint (b :: 8 word)) = uint b"
proof -
  have "uint b < 256" using uint_bounded [of b] by simp
  then have "\<bar>uint b\<bar> < 2 ^ 53" by simp
  then show ?thesis by (simp add: parsed_number_def Let_def)
qed

lemma to_Uint8Array_stringify: "to_Uint8Array (Some (map uint u)) = u"
  by (simp add: to_Uint8Array_def parsed_number_byte map_idI)

lemma on_message_scope:
  "em \<in> set (on_message st m (''yjs:'' @ A)) \<Longrightarrow> recipients em = rooms st A"
  unfolding on_message_def replace_first_prefix [of "''yjs:''" "[]" A, simplified]
  by (auto simp: Let_def io_to_def split: option.splits if_splits)

lemma relay_update_scope:
  "relay_update Y e st sock A u = (st', out, r) \<Longrightarrow>
     rooms st' = rooms st \<and>
     out = [\<lparr>recipients = rooms st A - rooms st sock, event = Yjs_update u\<rparr>] \<and>
     (channel st' = channel st \<or>
      channel st' = channel st @ [(''yjs:'' @ A, stringify ''update'' u)])"
  by (auto simp: relay_update_def Let_def socket_to_def redis_publish_def
           split: if_splits prod.splits dest!: save_document_frame)

lemma yjs_update_try_scope:
  "yjs_update_try Y e st sock A u = (st', out, r) \<Longrightarrow>
     rooms st' = rooms st \<and>
     (out = [] \<or> out = [\<lparr>recipients = rooms st A - rooms st sock, event = Yjs_update u\<rparr>]) \<and>
     (channel st' = channel st \<or>
      channel st' = channel st @ [(''yjs:'' @ A, stringify ''update'' u)])"
  by (auto simp: yjs_update_try_def split: if_splits option.splits apply_result.splits
           dest!: relay_update_scope)

lemma yjs_update_scope:
  "yjs_update Y e st sock A u = (st', out, r) \<Longrightarrow>
     rooms st' = rooms st \<and>
     (out = [] \<or> out = [\<lparr>recipients = rooms st A - rooms st sock, event = Yjs_update u\<rparr>]) \<and>
     (channel st' = channel st \<or>
      channel st' = channel st @ [(''yjs:'' @ A, stringify ''update'' u)])"
  by (auto simp: yjs_update_def split: prod.splits dest!: yjs_update_try_scope)

text \<open>
  C4. A socket that is not in the room named by session A gets nothing of an update submitted
  for A: the handler's broadcast goes to the members of room A only; what the handler
  publishes, if anything, is one message on the channel \<^verbatim>\<open>yjs:A\<close>; the subscriber, on any
  message of that channel, emits to the members of room A only; and so the handler followed by
  the delivery of the published message reaches no socket outside the room.
\<close>

theorem room_isolation:
  assumes "c \<notin> rooms st A"
  shows "(\<forall>em \<in> set (fst (snd (yjs_update Y e st sock A update))). c \<notin> recipients em) \<and>
         (channel (fst (yjs_update Y e st sock A update)) = channel st \<or>
          channel (fst (yjs_update Y e st sock A update)) =
            channel st @ [(''yjs:'' @ A, stringify ''update'' update)]) \<and>
         (\<forall>m. \<forall>em \<in> set (on_message st m (''yjs:'' @ A)). c \<notin> recipients em) \<and>
         (channel st = [] \<longrightarrow>
            (\<forall>em \<in> set (snd (run Y st [(e, Yjs_update_from sock A update), (e', Redis_message)])).
               c \<notin> recipients em))"
proof (intro conjI)
  obtain st' out r where y: "yjs_update Y e st sock A update = (st', out, r)"
    by (cases "yjs_update Y e st sock A update")
  note sc = yjs_update_scope [OF y]
  from sc assms show "\<forall>em \<in> set (fst (snd (yjs_update Y e st sock A update))). c \<notin> recipients em"
    unfolding y by auto
  from sc show "channel (fst (yjs_update Y e st sock A update)) = channel st \<or>
          channel (fst (yjs_update Y e st sock A update)) =
            channel st @ [(''yjs:'' @ A, stringify ''update'' update)]"
    unfolding y by simp
  show "\<forall>m. \<forall>em \<in> set (on_message st m (''yjs:'' @ A)). c \<notin> recipients em"
  proof (intro allI ballI)
    fix m em
    assume "em \<in> set (on_message st m (''yjs:'' @ A))"
    from on_message_scope [OF this] assms show "c \<notin> recipients em" by simp
  qed
  show "channel st = [] \<longrightarrow>
            (\<forall>em \<in> set (snd (run Y st [(e, Yjs_update_from sock A update), (e', Redis_message)])).
               c \<notin> recipients em)"
  proof
    assume empty: "channel st = []"
    have h: "handle Y st (e, Yjs_update_from sock A update) = (st', out)"
      using y by simp
    from sc empty have ch: "channel st' = [] \<or> channel st' = [(''yjs:'' @ A, stringify ''update'' update)]"
      by simp
    from sc have rm: "rooms st' = rooms st" by simp
    have d: "\<forall>em \<in> set (snd (redis_deliver st')). c \<notin> recipients em"
      using ch
    proof
      assume "channel st' = []"
      then show ?thesis by (simp add: redis_deliver_def)
    next
      assume "channel st' = [(''yjs:'' @ A, stringify ''update'' update)]"
      then have "snd (redis_deliver st') = on_message st' (stringify ''update'' update) (''yjs:'' @ A)"
        by (simp add: redis_deliver_def)
      moreover have "\<forall>em \<in> set (on_message st' (stringify ''update'' update) (''yjs:'' @ A)).
                       c \<notin> recipients em"
      proof
        fix em
        assume "em \<in> set (on_message st' (stringify ''update'' update) (''yjs:'' @ A))"
        from on_message_scope [OF this] assms rm show "c \<notin> recipients em" by simp
      qed
      ultimately show ?thesis by simp
    qed
    have "snd (run Y st [(e, Yjs_update_from sock A update), (e', Redis_message)])
            = out @ snd (redis_deliver st')"
      using y by (simp split: prod.splits)
    with sc assms d show "\<forall>em \<in> set (snd (run Y st [(e, Yjs_update_from sock A update), (e', Redis_message)])).
               c \<notin> recipients em"
      by auto
  qed
qed
theorem room_isolation_witness:
  "''c2'' \<in> rooms two_rooms ''S2'' \<and> ''c2'' \<notin> rooms two_rooms ''S1'' \<and>
   ''c2'' \<notin> \<Union> (recipients ` set (snd (run Yjs two_rooms
       [(calm, Yjs_update_from ''c1'' ''S1'' insert_XY), (calm, Redis_message)])))"
proof -
  have a: "''c2'' \<notin> rooms two_rooms ''S1''" by (simp add: two_rooms_rooms)
  from room_isolation [OF a, of Yjs calm "''c1''" insert_XY calm] two_rooms_rooms
  show ?thesis by simp
qed

text \<open>
  The direct broadcast does not go to the sender while the sender is in the room of its own
  id; the subscriber, given a message the handler published, emits the same bytes to every
  member of the room.
\<close>

lemma direct_broadcast_skips_sender:
  assumes "sock \<in> rooms st sock"
      and "em \<in> set (fst (snd (yjs_update Y e st sock sid update)))"
  shows "sock \<notin> recipients em"
proof -
  obtain st' out r where y: "yjs_update Y e st sock sid update = (st', out, r)"
    by (cases "yjs_update Y e st sock sid update")
  with yjs_update_scope [OF y] assms show ?thesis by auto
qed

lemma fanout_reaches_whole_room:
  "u \<noteq> [] \<Longrightarrow> on_message st (stringify ''update'' u) (''yjs:'' @ A) =
     [\<lparr>recipients = rooms st A, event = Yjs_update u\<rparr>]"
  unfolding on_message_def replace_first_prefix [of "''yjs:''" "[]" A, simplified]
  by (simp add: stringify_def to_Uint8Array_stringify io_to_def)

text \<open>
  C2. With \<^verbatim>\<open>c1\<close> and \<^verbatim>\<open>c2\<close> in the room of \<^verbatim>\<open>S1\<close>, \<^verbatim>\<open>c1\<close> submits the update that
  types \<^verbatim>\<open>XY\<close>, which the library accepts. The handler broadcasts it to \<^verbatim>\<open>c2\<close> alone and
  publishes it; Redis hands the message to this process's own subscriber, which emits it to
  the whole room: the second emission goes to \<^verbatim>\<open>c1\<close>, the sender, with the very bytes it
  sent (and to \<^verbatim>\<open>c2\<close> a second time). The same happens with the empty update
  \<^verbatim>\<open>[0, 0]\<close>.
\<close>

theorem echo_through_fanout:
  "yjsDocs two_clients ''S1'' = Some doc_hi \<and>
   readUpdate doc_hi insert_XY = Some (Applied doc_XYhi) \<and>
   snd (run Yjs two_clients
          [(calm, Yjs_update_from ''c1'' ''S1'' insert_XY), (calm, Redis_message)]) =
     [\<lparr>recipients = {''c2''}, event = Yjs_update insert_XY\<rparr>,
      \<lparr>recipients = {''c1'', ''c2''}, event = Yjs_update insert_XY\<rparr>] \<and>
   readUpdate doc_hi [0, 0] = Some (Applied doc_hi) \<and>
   snd (run Yjs two_clients
          [(calm, Yjs_update_from ''c1'' ''S1'' [0, 0]), (calm, Redis_message)]) =
     [\<lparr>recipients = {''c2''}, event = Yjs_update [0, 0]\<rparr>,
      \<lparr>recipients = {''c1'', ''c2''}, event = Yjs_update [0, 0]\<rparr>]"
  by code_simp

subsection \<open>Updates the library rejects\<close>

lemma yjs_update_try_docs:
  assumes "yjs_update_try Y e st sock sid u = (st', out, r)"
  shows "yjsDocs st' = yjsDocs st \<or>
         (\<exists>d d'. yjsDocs st sid = Some d \<and> u \<noteq> [] \<and>
            (applyUpdate Y d u = Applied d' \<or> applyUpdate Y d u = Raised d') \<and>
            yjsDocs st' = (yjsDocs st)(sid \<mapsto> d'))"
  using assms
  by (auto simp: yjs_update_try_def split: if_splits option.splits apply_result.splits
           dest!: relay_update_frame)

lemma yjs_update_docs:
  assumes "yjs_update Y e st sock sid u = (st', out, r)"
  shows "r = None \<and>
         (yjsDocs st' = yjsDocs st \<or>
         (\<exists>d d'. yjsDocs st sid = Some d \<and> u \<noteq> [] \<and>
            (applyUpdate Y d u = Applied d' \<or> applyUpdate Y d u = Raised d') \<and>
            yjsDocs st' = (yjsDocs st)(sid \<mapsto> d')))"
proof -
  obtain c where t: "yjs_update_try Y e st sock sid u = (st', out, c)" and "r = None"
    using assms by (cases "yjs_update_try Y e st sock sid u") (auto simp: yjs_update_def)
  with yjs_update_try_docs [OF t] show ?thesis by simp
qed

lemma all_zero_keeps_documents:
  assumes "\<forall>b\<in>set u. b = 0"
  shows "yjsDocs (fst (yjs_update Yjs e st sock sid u)) = yjsDocs st"
proof -
  obtain st' out r where y: "yjs_update Yjs e st sock sid u = (st', out, r)"
    by (cases "yjs_update Yjs e st sock sid u")
  from yjs_update_docs [OF y] have
    "yjsDocs st' = yjsDocs st \<or>
     (\<exists>d d'. yjsDocs st sid = Some d \<and>
        (applyUpdate Yjs d u = Applied d' \<or> applyUpdate Yjs d u = Raised d') \<and>
        yjsDocs st' = (yjsDocs st)(sid \<mapsto> d'))" by blast
  then have "yjsDocs st' = yjsDocs st"
  proof
    assume "yjsDocs st' = yjsDocs st"
    then show ?thesis .
  next
    assume "\<exists>d d'. yjsDocs st sid = Some d \<and>
        (applyUpdate Yjs d u = Applied d' \<or> applyUpdate Yjs d u = Raised d') \<and>
        yjsDocs st' = (yjsDocs st)(sid \<mapsto> d')"
    then obtain d d' where d: "yjsDocs st sid = Some d"
      and a: "applyUpdate Yjs d u = Applied d' \<or> applyUpdate Yjs d u = Raised d'"
      and s: "yjsDocs st' = (yjsDocs st)(sid \<mapsto> d')" by blast
    from Yjs_all_zero [OF assms, of d] a have "d' = d" by auto
    with d s show ?thesis by (simp add: map_upd_triv)
  qed
  with y show ?thesis by simp
qed

text \<open>
  Against C1 as stated: the session's document reads \<^verbatim>\<open>hi\<close>, and the payload is the update
  that types \<^verbatim>\<open>XY\<close> with its last byte lost. \<^verbatim>\<open>Y.applyUpdate\<close> integrates the item and then
  raises at the missing delete set. The handler catches the exception, and the document it
  keeps reads \<^verbatim>\<open>XYhi\<close>.
\<close>

theorem rejected_update_counterexample:
  "readUpdate doc_hi cut_XY = Some (Raised doc_XYhi) \<and>
   map_option (getTextString Yjs) (yjsDocs joined ''S1'') = Some ''hi'' \<and>
   map_option (getTextString Yjs)
     (yjsDocs (fst (yjs_update Yjs calm joined ''c1'' ''S1'' cut_XY)) ''S1'') = Some ''XYhi'' \<and>
   snd (yjs_update Yjs calm joined ''c1'' ''S1'' cut_XY) = ([], None)"
  by code_simp

text \<open>
  C1, as the code has it. The \<^verbatim>\<open>yjs-update\<close> handler lets no exception out, whatever the
  payload. A zero-length payload changes nothing at all. A payload \<^verbatim>\<open>Y.applyUpdate\<close>
  rejects is not broadcast, not published and not saved, and the session's document is the
  one the failed call left: nothing else of the state changes, and the handler restores
  nothing. No other session's document is touched, and the session's document changes only
  through a non-empty payload given to \<^verbatim>\<open>Y.applyUpdate\<close>. A payload of zero bytes only, for
  which the handler has no check, leaves every document as it was, by the way Yjs reads it.
\<close>

theorem rejected_update_contained:
  assumes run: "yjs_update Y e st sock sid update = (st', out, raised)"
  shows "raised = None \<and>
         (update = [] \<longrightarrow> st' = st \<and> out = []) \<and>
         (\<forall>d d'. yjsDocs st sid = Some d \<and> update \<noteq> [] \<and> applyUpdate Y d update = Raised d'
            \<longrightarrow> st' = st\<lparr>yjsDocs := (yjsDocs st)(sid \<mapsto> d')\<rparr> \<and> out = []) \<and>
         (\<forall>s. s \<noteq> sid \<longrightarrow> yjsDocs st' s = yjsDocs st s) \<and>
         (\<forall>d d'. yjsDocs st sid = Some d \<and> yjsDocs st' sid = Some d' \<and> d' \<noteq> d
            \<longrightarrow> update \<noteq> [] \<and>
                (applyUpdate Y d update = Applied d' \<or> applyUpdate Y d update = Raised d')) \<and>
         ((\<forall>b\<in>set update. b = 0) \<longrightarrow>
            (\<forall>e0 st0 sock0 sid0.
               yjsDocs (fst (yjs_update Yjs e0 st0 sock0 sid0 update)) = yjsDocs st0))"
proof (intro conjI)
  note docs = yjs_update_docs [OF run]
  from docs show "raised = None" by simp
  from run show "update = [] \<longrightarrow> st' = st \<and> out = []"
    by (auto simp: yjs_update_def yjs_update_try_def)
  from run show "\<forall>d d'. yjsDocs st sid = Some d \<and> update \<noteq> [] \<and> applyUpdate Y d update = Raised d'
            \<longrightarrow> st' = st\<lparr>yjsDocs := (yjsDocs st)(sid \<mapsto> d')\<rparr> \<and> out = []"
    by (auto simp: yjs_update_def yjs_update_try_def)
  from docs show "\<forall>s. s \<noteq> sid \<longrightarrow> yjsDocs st' s = yjsDocs st s" by auto
  from docs show "\<forall>d d'. yjsDocs st sid = Some d \<and> yjsDocs st' sid = Some d' \<and> d' \<noteq> d
            \<longrightarrow> update \<noteq> [] \<and>
                (applyUpdate Y d update = Applied d' \<or> applyUpdate Y d update = Raised d')"
    by auto
  show "(\<forall>b\<in>set update. b = 0) \<longrightarrow>
            (\<forall>e0 st0 sock0 sid0.
               yjsDocs (fst (yjs_update Yjs e0 st0 sock0 sid0 update)) = yjsDocs st0)"
    by (simp add: all_zero_keeps_documents)
qed

theorem rejected_update_contained_witness:
  "yjsDocs joined ''S1'' = Some doc_hi \<and>
   applyUpdate Yjs doc_hi cut_XY = Raised doc_XYhi \<and>
   yjs_update Yjs calm joined ''c1'' ''S1'' cut_XY =
     (joined\<lparr>yjsDocs := (yjsDocs joined)(''S1'' \<mapsto> doc_XYhi)\<rparr>, [], None)"
proof -
  let ?r = "yjs_update Yjs calm joined ''c1'' ''S1'' cut_XY"
  have r: "?r = (fst ?r, fst (snd ?r), snd (snd ?r))" by simp
  have ne: "cut_XY \<noteq> []" by (simp add: cut_XY_def)
  from rejected_update_contained [OF r] joined_docs apply_cut_XY ne
  have "snd (snd ?r) = None"
    and "fst ?r = joined\<lparr>yjsDocs := (yjsDocs joined)(''S1'' \<mapsto> doc_XYhi)\<rparr> \<and> fst (snd ?r) = []"
    by blast+
  with joined_docs apply_cut_XY show ?thesis by (cases ?r) simp
qed

subsection \<open>Loading a document on first join\<close>

lemma load_document_empty:
  "yjsState session = None \<Longrightarrow> lastSnapshot session = None
     \<Longrightarrow> load_document Y session = newDoc Y"
  by (simp add: load_document_def text_fallback_def)

lemma join_first_time:
  assumes "\<not> find_raises e" "codeSessions st sid = Some session" "yjsDocs st sid = None"
      and "join_session Y e st sock sid uid un = (st', out)"
  shows "yjsDocs st' sid = Some (load_document Y session) \<and> sock \<in> rooms st' sid"
  using assms
  by (auto simp: join_session_def join_session_try_def Let_def split_def obtain_doc_def
                 track_participant_def socket_join_def participant_upsert_def
           split: if_splits)

text \<open>
  When the library rejects the binary snapshot before it has integrated anything, the
  fallback gives the text snapshot: with the snapshot \<^verbatim>\<open>[9, 9, 9]\<close> the document of the
  first join reads \<^verbatim>\<open>print(1)\<close>.
\<close>

lemma fallback_after_early_rejection:
  "map_option (getTextString Yjs)
     (yjsDocs (fst (join_session Yjs calm corrupt_session ''c1'' ''S2'' ''u1'' ''Ann'')) ''S2'')
     = Some ''print(1)''"
  by code_simp

text \<open>
  C3. The row of \<^verbatim>\<open>S2\<close> has the text snapshot \<^verbatim>\<open>print(1)\<close> and, as binary snapshot, the
  update that types \<^verbatim>\<open>XY\<close> with its last byte lost. On the first join \<^verbatim>\<open>Y.applyUpdate\<close>
  integrates the item into the new document and then raises; the \<^verbatim>\<open>catch\<close> inserts the
  text snapshot into that same document. The join does not fail, but the document registered
  for the session reads \<^verbatim>\<open>print(1)XY\<close>, not the text snapshot.
\<close>

theorem cut_snapshot_join:
  "readUpdate (newDoc Yjs) cut_XY = Some (Raised doc_XY) \<and>
   map_option (getTextString Yjs)
     (yjsDocs (fst (join_session Yjs calm cut_session ''c1'' ''S2'' ''u1'' ''Ann'')) ''S2'')
     = Some ''print(1)XY'' \<and>
   Unauthorized \<notin>
     set (map event (snd (join_session Yjs calm cut_session ''c1'' ''S2'' ''u1'' ''Ann'')))"
  by code_simp

subsection \<open>Saving after an update\<close>






end
